theory Spec2Isabelle
  imports Complex_Main "HOL-Library.Multiset"
begin

section \<open>JavaScript values of a request body\<close>

text \<open>
  The handlers of \<^verbatim>\<open>server.js\<close> read \<^verbatim>\<open>amount\<close>, \<^verbatim>\<open>currency\<close> and
  \<^verbatim>\<open>merchantId\<close> from a body parsed by \<^verbatim>\<open>express.json\<close>, so each of them is any
  JSON value, or \<^verbatim>\<open>undefined\<close> when the key is absent (the body itself is taken to be
  an object, as \<^verbatim>\<open>express.json\<close> leaves it). A number is the rational value
  of the double (JSON has no NaN and no infinity; both zeros are the rational 0). An
  object is the list of its members in the order of the text.
\<close>

datatype js =
    JUndefined
  | JNull
  | JBool bool
  | JNum rat
  | JStr string
  | JArr "js list"
  | JObj "(string \<times> js) list"

text \<open>The truth value JavaScript gives a value in \<^verbatim>\<open>!v\<close> and \<^verbatim>\<open>if (v)\<close>.\<close>

fun truthy :: "js \<Rightarrow> bool" where
  "truthy JUndefined = False"
| "truthy JNull = False"
| "truthy (JBool b) = b"
| "truthy (JNum n) = (n \<noteq> 0)"
| "truthy (JStr s) = (s \<noteq> [])"
| "truthy (JArr xs) = True"
| "truthy (JObj kvs) = True"

text \<open>
  What the handlers take from the JavaScript runtime and from the drivers, and what the
  source does not define: the decimal text of a number, \<^verbatim>\<open>JSON.parse\<close> (\<open>None\<close> is its
  SyntaxError), \<^verbatim>\<open>JSON.stringify\<close>, \<^verbatim>\<open>Date.prototype.toISOString\<close> of an instant in
  milliseconds, and the values the SQL driver sends for a parameter declared
  \<^verbatim>\<open>sql.Decimal(10, 2)\<close> or \<^verbatim>\<open>sql.NVarChar\<close> (\<open>None\<close> when it rejects the value).
\<close>

record runtime =
  Number_toString :: "rat \<Rightarrow> string"
  JSON_parse :: "string \<Rightarrow> js option"
  JSON_stringify :: "js \<Rightarrow> string"
  toISOString :: "int \<Rightarrow> string"
  sqlDecimal :: "js \<Rightarrow> rat option"
  sqlNVarChar :: "js \<Rightarrow> string option"

fun joinWith :: "string \<Rightarrow> string list \<Rightarrow> string" where
  "joinWith sep [] = []"
| "joinWith sep [x] = x"
| "joinWith sep (x # y # ys) = x @ sep @ joinWith sep (y # ys)"

text \<open>
  The string a template literal \<^verbatim>\<open>`${v}`\<close> puts in place of a value; \<open>None\<close> is the
  TypeError of an object whose own member \<^verbatim>\<open>toString\<close> hides the inherited method (a
  member read from JSON is never callable). An array joins its elements with a comma,
  \<^verbatim>\<open>null\<close> and \<^verbatim>\<open>undefined\<close> elements giving the empty string.
\<close>

fun ToString :: "runtime \<Rightarrow> js \<Rightarrow> string option" where
  "ToString rt JUndefined = Some ''undefined''"
| "ToString rt JNull = Some ''null''"
| "ToString rt (JBool b) = Some (if b then ''true'' else ''false'')"
| "ToString rt (JNum n) = Some (Number_toString rt n)"
| "ToString rt (JStr s) = Some s"
| "ToString rt (JArr xs) =
     map_option (joinWith '','')
       (those (map (\<lambda>x. if x = JUndefined \<or> x = JNull then Some [] else ToString rt x) xs))"
| "ToString rt (JObj kvs) =
     (if ''toString'' \<in> fst ` set kvs then None else Some ''[object Object]'')"

text \<open>
  \<^verbatim>\<open>merchantData.valid\<close> on a parsed cache entry: the member of an object (the last
  one of that name in the text), \<^verbatim>\<open>undefined\<close> on any other value that has properties,
  and a TypeError (\<open>None\<close>) on \<^verbatim>\<open>null\<close>.
\<close>

fun valid_of :: "js \<Rightarrow> js option" where
  "valid_of JUndefined = None"
| "valid_of JNull = None"
| "valid_of (JObj kvs) =
     Some (case map_of (rev kvs) ''valid'' of None \<Rightarrow> JUndefined | Some v \<Rightarrow> v)"
| "valid_of v = Some JUndefined"

section \<open>The cache, the ledger and the clock\<close>

text \<open>
  One row of the table \<^verbatim>\<open>Payments\<close> that \<^verbatim>\<open>createTablesIfNeeded\<close> creates. The amount
  is the exact value of the \<^verbatim>\<open>decimal(10,2)\<close> column, \<open>CreatedAt\<close> an instant in
  milliseconds.
\<close>

record payment_row =
  PaymentId :: nat
  Amount :: rat
  Currency :: string
  MerchantId :: string
  Status :: string
  CreatedAt :: int

text \<open>The calls a request makes on the cache and on the ledger, in the order made.\<close>

datatype io =
    RedisGet string
  | RedisSetEx string nat string
  | SqlInsert js js js

text \<open>
  All that the handlers read and change outside themselves: the clock \<open>now\<close> in
  milliseconds (one clock stands for \<^verbatim>\<open>Date.now()\<close>, for \<^verbatim>\<open>GETDATE()\<close> and for the
  expiry of cache keys); \<^verbatim>\<open>redisClient?.isOpen\<close>; whether the next \<^verbatim>\<open>get\<close> and
  \<^verbatim>\<open>setEx\<close> reject; the keys of the cache, each with its value and the instant it
  expires; whether \<^verbatim>\<open>sql.connect\<close> or the query rejects; the rows of \<^verbatim>\<open>Payments\<close> in
  insertion order; the last value of the \<^verbatim>\<open>IDENTITY(1,1)\<close> column; and the calls made so
  far.
\<close>

record world =
  now :: int
  redisOpen :: bool
  redisGetFails :: bool
  redisSetFails :: bool
  cache :: "string \<Rightarrow> (string \<times> int) option"
  sqlDown :: bool
  Payments :: "payment_row list"
  identity :: nat
  trace :: "io list"

definition redis_get :: "world \<Rightarrow> string \<Rightarrow> string option" where
  "redis_get w k =
     (case cache w k of
        None \<Rightarrow> None
      | Some (v, expiry) \<Rightarrow> if now w < expiry then Some v else None)"

definition redis_setEx :: "world \<Rightarrow> string \<Rightarrow> nat \<Rightarrow> string \<Rightarrow> world" where
  "redis_setEx w k seconds v = w\<lparr>cache := (cache w)(k \<mapsto> (v, now w + 1000 * int seconds))\<rparr>"

section \<open>POST /api/payments\<close>

text \<open>The object the handler writes to the cache on a miss (lines 255 to 259).\<close>

definition merchantRecord :: "runtime \<Rightarrow> int \<Rightarrow> js" where
  "merchantRecord rt t =
     JObj [(''valid'', JBool True), (''checkedAt'', JStr (toISOString rt t)),
           (''checkCount'', JNum 1)]"

definition cacheKey :: "string \<Rightarrow> string" where
  "cacheKey mid = ''merchant:'' @ mid"

text \<open>
  Lines 255 to 260, the branch of a miss: \<^verbatim>\<open>setEx\<close> of the serialised record under
  300 seconds. When \<^verbatim>\<open>setEx\<close> rejects, the call was made and nothing is stored.
\<close>

definition writeValidation :: "runtime \<Rightarrow> world \<Rightarrow> string \<Rightarrow> world" where
  "writeValidation rt w key =
     (let v = JSON_stringify rt (merchantRecord rt (now w));
          w' = w\<lparr>trace := trace w @ [RedisSetEx key 300 v]\<rparr>
      in if redisSetFails w then w' else redis_setEx w' key 300 v)"

text \<open>
  Lines 247 to 270: the value of \<^verbatim>\<open>merchantValid\<close> after the cache step, and the world
  it leaves. Everything thrown inside the inner \<^verbatim>\<open>try\<close> (by the template literal, by
  \<^verbatim>\<open>get\<close>, by \<^verbatim>\<open>setEx\<close>, by \<^verbatim>\<open>JSON.parse\<close>, by the property read) is caught there and
  leaves \<^verbatim>\<open>merchantValid\<close> at \<^verbatim>\<open>true\<close>. The test \<^verbatim>\<open>!cached\<close> holds for \<^verbatim>\<open>null\<close>
  (no such key, or an expired one) and for a key that holds the empty string.
\<close>

definition checkMerchant :: "runtime \<Rightarrow> world \<Rightarrow> js \<Rightarrow> js \<times> world" where
  "checkMerchant rt w merchantId =
     (if \<not> redisOpen w then (JBool True, w)
      else
        (case ToString rt merchantId of
           None \<Rightarrow> (JBool True, w)
         | Some mid \<Rightarrow>
             (let w1 = w\<lparr>trace := trace w @ [RedisGet (cacheKey mid)]\<rparr> in
              if redisGetFails w then (JBool True, w1)
              else
                (case redis_get w (cacheKey mid) of
                   None \<Rightarrow> (JBool True, writeValidation rt w1 (cacheKey mid))
                 | Some cached \<Rightarrow>
                     (if cached = [] then (JBool True, writeValidation rt w1 (cacheKey mid))
                      else
                        (case JSON_parse rt cached of
                           None \<Rightarrow> (JBool True, w1)
                         | Some merchantData \<Rightarrow>
                             (case valid_of merchantData of
                                None \<Rightarrow> (JBool True, w1)
                              | Some v \<Rightarrow> (v, w1))))))))"

text \<open>
  Lines 281 to 292: the \<^verbatim>\<open>INSERT\<close> with \<^verbatim>\<open>SELECT SCOPE_IDENTITY()\<close>. It fails when the
  connection or the query rejects, when the driver rejects a parameter, and when a value
  does not fit its column (\<^verbatim>\<open>decimal(10,2)\<close>, \<^verbatim>\<open>nvarchar(3)\<close>, \<^verbatim>\<open>nvarchar(50)\<close>; the
  length of a string is the length of its character list). Otherwise the row is appended
  with the next identity value, status \<^verbatim>\<open>COMPLETED\<close> and the time of the clock, and
  the identity value is returned. Identity values that a failed insert uses up are left
  out.
\<close>

definition insertPayment :: "runtime \<Rightarrow> world \<Rightarrow> js \<Rightarrow> js \<Rightarrow> js \<Rightarrow> nat option \<times> world" where
  "insertPayment rt w amount currency merchantId =
     (let w1 = w\<lparr>trace := trace w @ [SqlInsert amount currency merchantId]\<rparr> in
      if sqlDown w then (None, w1)
      else case sqlDecimal rt amount of
        None \<Rightarrow> (None, w1)
      | Some a \<Rightarrow>
          (case sqlNVarChar rt currency of
             None \<Rightarrow> (None, w1)
           | Some c \<Rightarrow>
               (case sqlNVarChar rt merchantId of
                  None \<Rightarrow> (None, w1)
                | Some m \<Rightarrow>
                    if 10 ^ 8 \<le> \<bar>a\<bar> \<or> 3 < length c \<or> 50 < length m then (None, w1)
                    else
                      (Some (identity w + 1),
                       w1\<lparr>Payments := Payments w @
                            [\<lparr>PaymentId = identity w + 1, Amount = a, Currency = c,
                              MerchantId = m, Status = ''COMPLETED'', CreatedAt = now w\<rparr>],
                          identity := identity w + 1\<rparr>))))"

text \<open>
  What the handler answers, without the timestamps and the duration it adds to every
  body: status 400 with the list of required parameters (the specification's ValidationError),
  status 400 with \<^verbatim>\<open>Merchant invalide\<close> and the merchant identifier
  (MerchantRejectedError), status 201 with \<^verbatim>\<open>paymentId\<close>, \<^verbatim>\<open>status\<close>, \<^verbatim>\<open>amount\<close>,
  \<^verbatim>\<open>currency\<close> and \<^verbatim>\<open>merchantId\<close> (PaymentResult), and status 500 with
  \<^verbatim>\<open>Erreur traitement paiement\<close> (PersistenceError) for whatever the outer \<^verbatim>\<open>try\<close>
  catches: a TypeError of the log line or a failure of the ledger.
\<close>

datatype failure = TypeError | SqlError

datatype response =
    ValidationError
  | MerchantRejectedError js
  | PaymentResult nat string js js js
  | PersistenceError failure

fun statusCode :: "response \<Rightarrow> nat" where
  "statusCode ValidationError = 400"
| "statusCode (MerchantRejectedError m) = 400"
| "statusCode (PaymentResult p s a c m) = 201"
| "statusCode (PersistenceError e) = 500"

text \<open>
  Line 244: the log line renders the three fields in a template literal, inside the
  outer \<^verbatim>\<open>try\<close>; \<open>None\<close> when one of them throws.
\<close>

definition logLine :: "runtime \<Rightarrow> js \<Rightarrow> js \<Rightarrow> js \<Rightarrow> string list option" where
  "logLine rt amount currency merchantId =
     those [ToString rt amount, ToString rt currency, ToString rt merchantId]"

text \<open>The handler, lines 231 to 318.\<close>

definition processPayment :: "runtime \<Rightarrow> world \<Rightarrow> js \<Rightarrow> js \<Rightarrow> js \<Rightarrow> response \<times> world" where
  "processPayment rt w amount currency merchantId =
     (if \<not> truthy amount \<or> \<not> truthy currency \<or> \<not> truthy merchantId
      then (ValidationError, w)
      else
        (case logLine rt amount currency merchantId of
           None \<Rightarrow> (PersistenceError TypeError, w)
         | Some line \<Rightarrow>
             (case checkMerchant rt w merchantId of
                (merchantValid, w1) \<Rightarrow>
                  (if \<not> truthy merchantValid then (MerchantRejectedError merchantId, w1)
                   else
                     (case insertPayment rt w1 amount currency merchantId of
                        (None, w2) \<Rightarrow> (PersistenceError SqlError, w2)
                      | (Some paymentId, w2) \<Rightarrow>
                          (PaymentResult paymentId ''COMPLETED'' amount currency merchantId,
                           w2))))))"

text \<open>
  The request reads the cache and finds nothing to parse: it passes the validation and
  the log line, the client is open, \<^verbatim>\<open>get\<close> answers, and the answer is \<^verbatim>\<open>null\<close> or
  the empty string (the test \<^verbatim>\<open>!cached\<close> of line 253).
\<close>

definition cacheMiss :: "runtime \<Rightarrow> world \<Rightarrow> js \<Rightarrow> js \<Rightarrow> js \<Rightarrow> bool" where
  "cacheMiss rt w amount currency merchantId =
     (truthy amount \<and> truthy currency \<and> truthy merchantId \<and>
      logLine rt amount currency merchantId \<noteq> None \<and> redisOpen w \<and> \<not> redisGetFails w \<and>
      (case ToString rt merchantId of
         None \<Rightarrow> False
       | Some mid \<Rightarrow>
           redis_get w (cacheKey mid) = None \<or> redis_get w (cacheKey mid) = Some []))"

section \<open>GET /api/payments and GET /api/stats\<close>

text \<open>
  Lines 321 to 343: \<^verbatim>\<open>SELECT TOP 20 ... ORDER BY CreatedAt DESC\<close>, answered with the rows
  and their count, or status 500 when the connection or the query rejects. The store
  leaves the order of rows with equal \<^verbatim>\<open>CreatedAt\<close> open; here they keep their insertion
  order.
\<close>

datatype list_response = PaymentList "payment_row list" nat | ListError

definition listRecentPayments :: "world \<Rightarrow> list_response" where
  "listRecentPayments w =
     (if sqlDown w then ListError
      else
        (let recordset = take 20 (sort_key (\<lambda>r. - CreatedAt r) (Payments w))
         in PaymentList recordset (length recordset)))"

text \<open>
  Lines 346 to 370: the aggregates over the rows with
  \<^verbatim>\<open>CreatedAt >= DATEADD(day, -1, GETDATE())\<close>. \<^verbatim>\<open>COUNT\<close> of no rows is 0, while \<^verbatim>\<open>SUM\<close> and
  \<^verbatim>\<open>AVG\<close> of no rows are \<^verbatim>\<open>NULL\<close> (\<open>None\<close>). The average is the exact quotient (the
  store returns it at the scale of its decimal type), and merchants are distinct as
  strings (the collation of the column is left out).
\<close>

record stats =
  totalPayments :: nat
  totalAmount :: "rat option"
  averageAmount :: "rat option"
  uniqueMerchants :: nat

datatype stats_response = Stats stats | StatsError

definition lastDay :: "int \<Rightarrow> payment_row list \<Rightarrow> payment_row list" where
  "lastDay t rows = filter (\<lambda>r. t - 86400000 \<le> CreatedAt r) rows"

definition aggregate :: "payment_row list \<Rightarrow> stats" where
  "aggregate rows =
     \<lparr>totalPayments = length rows,
      totalAmount = (if rows = [] then None else Some (sum_list (map Amount rows))),
      averageAmount =
        (if rows = [] then None
         else Some (sum_list (map Amount rows) / of_nat (length rows))),
      uniqueMerchants = length (remdups (map MerchantId rows))\<rparr>"

definition computeDailyStats :: "world \<Rightarrow> stats_response" where
  "computeDailyStats w =
     (if sqlDown w then StatsError else Stats (aggregate (lastDay (now w) (Payments w))))"

section \<open>Requests in sequence\<close>

text \<open>
  A run of payment requests on one world: before each request the clock advances by the
  delay given with it. The responses come back in the order of the requests.
\<close>

fun intake ::
  "runtime \<Rightarrow> world \<Rightarrow> (int \<times> js \<times> js \<times> js) list \<Rightarrow> response list \<times> world" where
  "intake rt w [] = ([], w)"
| "intake rt w ((delay, amount, currency, merchantId) # reqs) =
     (case processPayment rt (w\<lparr>now := now w + delay\<rparr>) amount currency merchantId of
        (r, w1) \<Rightarrow> (case intake rt w1 reqs of (rs, w2) \<Rightarrow> (r # rs, w2)))"

fun isPaymentResult :: "response \<Rightarrow> bool" where
  "isPaymentResult (PaymentResult p s a c m) = True"
| "isPaymentResult r = False"

fun isCacheWrite :: "io \<Rightarrow> bool" where
  "isCacheWrite (RedisSetEx k ttl v) = True"
| "isCacheWrite e = False"

fun isLedgerWrite :: "io \<Rightarrow> bool" where
  "isLedgerWrite (SqlInsert a c m) = True"
| "isLedgerWrite e = False"

section \<open>An example runtime and an empty world\<close>

text \<open>
  A runtime for the examples: it serialises the validation record written at instant 0,
  parses that text and the text of the same record with \<^verbatim>\<open>valid\<close> false, binds numbers
  as decimals and strings as strings, and rejects every other parameter.
\<close>

definition validText :: string where
  "validText =
     ''{\"valid\":true,\"checkedAt\":\"1970-01-01T00:00:00.000Z\",\"checkCount\":1}''"

definition invalidText :: string where
  "invalidText =
     ''{\"valid\":false,\"checkedAt\":\"1970-01-01T00:00:00.000Z\",\"checkCount\":1}''"

definition exampleRuntime :: runtime where
  "exampleRuntime =
     \<lparr>Number_toString = (\<lambda>n. ''10''),
      JSON_parse = (\<lambda>s.
        if s = validText then
          Some (JObj [(''valid'', JBool True),
                      (''checkedAt'', JStr ''1970-01-01T00:00:00.000Z''),
                      (''checkCount'', JNum 1)])
        else if s = invalidText then
          Some (JObj [(''valid'', JBool False),
                      (''checkedAt'', JStr ''1970-01-01T00:00:00.000Z''),
                      (''checkCount'', JNum 1)])
        else None),
      JSON_stringify = (\<lambda>v. validText),
      toISOString = (\<lambda>t. ''1970-01-01T00:00:00.000Z''),
      sqlDecimal = (\<lambda>v. case v of JNum r \<Rightarrow> Some r | _ \<Rightarrow> None),
      sqlNVarChar = (\<lambda>v. case v of JStr s \<Rightarrow> Some s | _ \<Rightarrow> None)\<rparr>"

definition emptyWorld :: world where
  "emptyWorld =
     \<lparr>now = 0, redisOpen = True, redisGetFails = False, redisSetFails = False,
      cache = (\<lambda>k. None), sqlDown = False, Payments = [], identity = 0, trace = []\<rparr>"

definition invalidCache :: "string \<Rightarrow> (string \<times> int) option" where
  "invalidCache k = (if k = ''merchant:M1'' then Some (invalidText, 300000) else None)"

definition validCache :: "string \<Rightarrow> (string \<times> int) option" where
  "validCache k = (if k = ''merchant:M1'' then Some (validText, 300000) else None)"

definition threePayments :: world where
  "threePayments =
     emptyWorld\<lparr>Payments :=
       [\<lparr>PaymentId = 1, Amount = 10, Currency = ''USD'', MerchantId = ''M1'',
          Status = ''COMPLETED'', CreatedAt = 1000\<rparr>,
        \<lparr>PaymentId = 2, Amount = 25.5, Currency = ''USD'', MerchantId = ''M1'',
          Status = ''COMPLETED'', CreatedAt = 3000\<rparr>,
        \<lparr>PaymentId = 3, Amount = 7, Currency = ''EUR'', MerchantId = ''M2'',
          Status = ''COMPLETED'', CreatedAt = 2000\<rparr>],
       identity := 3\<rparr>"

lemmas model_defs =
  processPayment_def checkMerchant_def writeValidation_def insertPayment_def
  redis_get_def redis_setEx_def logLine_def cacheKey_def merchantRecord_def Let_def

lemmas example_defs = exampleRuntime_def emptyWorld_def validText_def invalidText_def

section \<open>Validation\<close>

text \<open>
  C2. When \<^verbatim>\<open>amount\<close>, \<^verbatim>\<open>currency\<close> or \<^verbatim>\<open>merchantId\<close> is missing (\<^verbatim>\<open>undefined\<close> or
  \<^verbatim>\<open>null\<close>) or the empty string, the handler answers with the validation error and
  leaves the world as it found it: the trace is the same, so there was no cache read, no
  cache write and no insert, and the ledger has the rows it had.
\<close>

theorem validation_fails_before_io:
  assumes "amount \<in> {JUndefined, JNull, JStr []} \<or> currency \<in> {JUndefined, JNull, JStr []}
             \<or> merchantId \<in> {JUndefined, JNull, JStr []}"
  shows "processPayment rt w amount currency merchantId = (ValidationError, w)"
  using assms by (auto simp: processPayment_def)

theorem validation_fails_before_io_witness:
  "processPayment exampleRuntime emptyWorld (JNum 10) JUndefined (JStr ''M1'')
     = (ValidationError, emptyWorld)"
  using validation_fails_before_io [of "JNum 10" JUndefined "JStr ''M1''" exampleRuntime emptyWorld]
  by simp

text \<open>
  C10. An amount that is the number 0 fails the test \<^verbatim>\<open>!amount\<close> as a missing amount
  does: the answer is the validation error, and the world, its trace included, is
  unchanged.
\<close>

theorem zero_amount_is_validation_error:
  "processPayment rt w (JNum 0) currency merchantId = (ValidationError, w)"
  by (simp add: processPayment_def)

theorem zero_amount_is_validation_error_witness:
  "processPayment exampleRuntime emptyWorld (JNum 0) (JStr ''USD'') (JStr ''M1'')
     = (ValidationError, emptyWorld)"
  by (rule zero_amount_is_validation_error)

section \<open>The cache step\<close>

lemma checkMerchant_frame:
  "Payments (snd (checkMerchant rt w m)) = Payments w"
  "identity (snd (checkMerchant rt w m)) = identity w"
  "sqlDown (snd (checkMerchant rt w m)) = sqlDown w"
  "now (snd (checkMerchant rt w m)) = now w"
  by (auto simp: checkMerchant_def writeValidation_def redis_setEx_def Let_def
      split: option.splits)

lemma checkMerchant_trace:
  "\<exists>evs. trace (snd (checkMerchant rt w m)) = trace w @ evs \<and> filter isLedgerWrite evs = []"
  by (auto simp: checkMerchant_def writeValidation_def redis_setEx_def Let_def
      split: option.splits)

lemma checkMerchant_hit:
  assumes "redisOpen w" "\<not> redisGetFails w" "ToString rt merchantId = Some mid"
    and "redis_get w (cacheKey mid) = Some cached" "cached \<noteq> []"
    and "JSON_parse rt cached = Some merchantData" "valid_of merchantData = Some stored"
  shows "checkMerchant rt w merchantId
           = (stored, w\<lparr>trace := trace w @ [RedisGet (cacheKey mid)]\<rparr>)"
  using assms by (simp add: checkMerchant_def Let_def)

lemma processPayment_ledger_step:
  assumes "truthy amount" "truthy currency" "truthy merchantId"
    and "logLine rt amount currency merchantId = Some line"
    and "checkMerchant rt w merchantId = (merchantValid, w1)" "truthy merchantValid"
  shows "processPayment rt w amount currency merchantId =
           (case insertPayment rt w1 amount currency merchantId of
              (None, w2) \<Rightarrow> (PersistenceError SqlError, w2)
            | (Some paymentId, w2) \<Rightarrow>
                (PaymentResult paymentId ''COMPLETED'' amount currency merchantId, w2))"
  using assms by (simp add: processPayment_def)

section \<open>The ledger write\<close>

text \<open>
  C1. When the handler answers with a payment result, the request was valid (the three
  fields are truthy), the ledger has exactly one row more than before, appended with
  status \<^verbatim>\<open>COMPLETED\<close> and with the identity value the store generated (one more than
  the last), and the \<^verbatim>\<open>paymentId\<close> of the answer is the identifier of that row; the
  answer echoes amount, currency and merchant and has status \<^verbatim>\<open>COMPLETED\<close>.
\<close>

theorem success_inserts_one_completed_row:
  assumes "processPayment rt w amount currency merchantId
             = (PaymentResult paymentId st a c m, w')"
  shows "\<exists>row. Payments w' = Payments w @ [row] \<and> Status row = ''COMPLETED'' \<and>
           PaymentId row = paymentId \<and> paymentId = identity w + 1 \<and>
           st = ''COMPLETED'' \<and> a = amount \<and> c = currency \<and> m = merchantId \<and>
           truthy amount \<and> truthy currency \<and> truthy merchantId"
proof -
  obtain mv w1 where cm: "checkMerchant rt w merchantId = (mv, w1)"
    by (cases "checkMerchant rt w merchantId")
  have fr: "Payments w1 = Payments w" "identity w1 = identity w"
    using checkMerchant_frame(1,2) [of rt w merchantId] cm by simp_all
  from assms cm fr show ?thesis
    by (auto simp: processPayment_def insertPayment_def Let_def
        split: if_splits option.splits prod.splits)
qed

theorem success_inserts_one_completed_row_witness:
  "\<exists>row. Payments (snd (processPayment exampleRuntime emptyWorld
                          (JNum 10) (JStr ''USD'') (JStr ''M1'')))
            = Payments emptyWorld @ [row] \<and>
         Status row = ''COMPLETED'' \<and> PaymentId row = 1"
proof -
  have "processPayment exampleRuntime emptyWorld (JNum 10) (JStr ''USD'') (JStr ''M1'')
          = (PaymentResult 1 ''COMPLETED'' (JNum 10) (JStr ''USD'') (JStr ''M1''),
             snd (processPayment exampleRuntime emptyWorld
                    (JNum 10) (JStr ''USD'') (JStr ''M1'')))"
    by (simp add: model_defs example_defs)
  from success_inserts_one_completed_row [OF this] show ?thesis by auto
qed

text \<open>
  C6. A request that reaches the ledger write (it is valid, its log line renders, and
  the cache step, whatever the cache held or did, left \<^verbatim>\<open>merchantValid\<close> truthy) and
  whose insert fails is answered with status 500, the specification's PersistenceError.
  The ledger keeps the rows it had, and the calls of the request hold one insert and no
  second attempt.
\<close>

theorem ledger_failure_is_surfaced:
  assumes "truthy amount" "truthy currency" "truthy merchantId"
    and "logLine rt amount currency merchantId = Some line"
    and "checkMerchant rt w merchantId = (merchantValid, w1)" "truthy merchantValid"
    and "insertPayment rt w1 amount currency merchantId = (None, w2)"
  shows "processPayment rt w amount currency merchantId = (PersistenceError SqlError, w2) \<and>
         Payments w2 = Payments w \<and>
         (\<exists>evs. trace w2 = trace w @ evs \<and>
                filter isLedgerWrite evs = [SqlInsert amount currency merchantId])"
proof -
  have fr: "Payments w1 = Payments w"
    using checkMerchant_frame(1) [of rt w merchantId] assms(5) by simp
  obtain evs where evs: "trace w1 = trace w @ evs" "filter isLedgerWrite evs = []"
    using checkMerchant_trace [of rt w merchantId] assms(5) by auto
  have w2: "w2 = w1\<lparr>trace := trace w1 @ [SqlInsert amount currency merchantId]\<rparr>"
    using assms(7) by (auto simp: insertPayment_def Let_def split: if_splits option.splits)
  have "processPayment rt w amount currency merchantId = (PersistenceError SqlError, w2)"
    using processPayment_ledger_step [OF assms(1-6)] assms(7) by simp
  moreover have "Payments w2 = Payments w"
    using w2 fr by simp
  moreover have "trace w2 = trace w @ (evs @ [SqlInsert amount currency merchantId])"
    using w2 evs(1) by simp
  moreover have "filter isLedgerWrite (evs @ [SqlInsert amount currency merchantId])
                   = [SqlInsert amount currency merchantId]"
    using evs(2) by simp
  ultimately show ?thesis by blast
qed

theorem ledger_failure_is_surfaced_witness:
  "fst (processPayment exampleRuntime (emptyWorld\<lparr>sqlDown := True\<rparr>)
          (JNum 10) (JStr ''USD'') (JStr ''M1'')) = PersistenceError SqlError \<and>
   Payments (snd (processPayment exampleRuntime (emptyWorld\<lparr>sqlDown := True\<rparr>)
                    (JNum 10) (JStr ''USD'') (JStr ''M1''))) = []"
proof -
  let ?w = "emptyWorld\<lparr>sqlDown := True\<rparr>"
  let ?w1 = "snd (checkMerchant exampleRuntime ?w (JStr ''M1''))"
  let ?w2 = "snd (insertPayment exampleRuntime ?w1 (JNum 10) (JStr ''USD'') (JStr ''M1''))"
  have cm: "checkMerchant exampleRuntime ?w (JStr ''M1'') = (JBool True, ?w1)"
    by (simp add: model_defs example_defs)
  have ins: "insertPayment exampleRuntime ?w1 (JNum 10) (JStr ''USD'') (JStr ''M1'')
               = (None, ?w2)"
    by (simp add: model_defs example_defs)
  have "processPayment exampleRuntime ?w (JNum 10) (JStr ''USD'') (JStr ''M1'')
          = (PersistenceError SqlError, ?w2) \<and> Payments ?w2 = Payments ?w"
    using ledger_failure_is_surfaced
            [where line = "[''10'', ''USD'', ''M1'']", OF _ _ _ _ cm _ ins]
    by (simp add: model_defs example_defs)
  then show ?thesis by (simp add: emptyWorld_def)
qed

section \<open>Merchant validation through the cache\<close>

text \<open>
  C3. A valid request whose log line renders, with the cache client open and \<^verbatim>\<open>get\<close>
  answering the entry of the merchant, a text that is not empty and parses to a record
  with \<^verbatim>\<open>valid\<close> false: the handler answers with the merchant rejection that carries the
  merchant identifier. The only call made is the cache read; there is no insert and the
  ledger is the one of before.
\<close>

theorem invalid_merchant_is_rejected:
  assumes "truthy amount" "truthy currency" "truthy merchantId"
    and "logLine rt amount currency merchantId = Some line"
    and "ToString rt merchantId = Some mid"
    and "redisOpen w" "\<not> redisGetFails w"
    and "redis_get w (cacheKey mid) = Some cached" "cached \<noteq> []"
    and "JSON_parse rt cached = Some merchantData"
    and "valid_of merchantData = Some (JBool False)"
  shows "processPayment rt w amount currency merchantId
           = (MerchantRejectedError merchantId,
              w\<lparr>trace := trace w @ [RedisGet (cacheKey mid)]\<rparr>)"
  using assms(1-4) checkMerchant_hit [OF assms(6,7,5,8-11)]
  by (simp add: processPayment_def)

theorem invalid_merchant_is_rejected_witness:
  "processPayment exampleRuntime (emptyWorld\<lparr>cache := invalidCache\<rparr>)
       (JNum 10) (JStr ''USD'') (JStr ''M1'')
     = (MerchantRejectedError (JStr ''M1''),
        emptyWorld\<lparr>cache := invalidCache, trace := [RedisGet ''merchant:M1'']\<rparr>)"
proof -
  have "processPayment exampleRuntime (emptyWorld\<lparr>cache := invalidCache\<rparr>)
          (JNum 10) (JStr ''USD'') (JStr ''M1'')
        = (MerchantRejectedError (JStr ''M1''),
           emptyWorld\<lparr>cache := invalidCache,
             trace := trace (emptyWorld\<lparr>cache := invalidCache\<rparr>)
                        @ [RedisGet (cacheKey ''M1'')]\<rparr>)"
    by (rule invalid_merchant_is_rejected
          [where line = "[''10'', ''USD'', ''M1'']" and cached = invalidText
             and merchantData = "JObj [(''valid'', JBool False),
                   (''checkedAt'', JStr ''1970-01-01T00:00:00.000Z''),
                   (''checkCount'', JNum 1)]"])
       (simp_all add: model_defs example_defs invalidCache_def)
  then show ?thesis by (simp add: emptyWorld_def cacheKey_def)
qed

text \<open>
  C4. A valid request whose log line renders, with the cache client open, \<^verbatim>\<open>get\<close> and
  \<^verbatim>\<open>setEx\<close> answering, and no entry for the merchant (\<^verbatim>\<open>get\<close> gives \<^verbatim>\<open>null\<close>). Then:
  the cache step leaves \<^verbatim>\<open>merchantValid\<close> at \<^verbatim>\<open>true\<close> after one read and one write;
  the answer of the request is the outcome of the ledger write; after the request the
  cache holds, under the key of the merchant, the serialised record with \<^verbatim>\<open>valid\<close> true,
  expiring 300 seconds after the request; in every later world that still has this entry
  and whose clock is before the expiry, the cache step reads it, makes no write and
  gives \<^verbatim>\<open>true\<close> (given that \<^verbatim>\<open>JSON.parse\<close> reads back what \<^verbatim>\<open>JSON.stringify\<close> wrote, a
  text that is not empty); from the expiry on, \<^verbatim>\<open>get\<close> gives \<^verbatim>\<open>null\<close> again. On a hit
  in any world, the cache step gives what the read of \<^verbatim>\<open>valid\<close> gives on the parsed
  entry. For an entry that parses to an object this is the value stored under \<^verbatim>\<open>valid\<close>
  (\<^verbatim>\<open>undefined\<close> when there is none): the cache step returns that value after the one
  read, and the request is answered by the ledger write when the value is truthy and by
  the merchant rejection, with no insert, when it is not.
\<close>

theorem cache_miss_trusts_and_stores:
  fixes rt w amount currency merchantId mid
  defines "v \<equiv> JSON_stringify rt (merchantRecord rt (now w))"
  defines "w1 \<equiv> redis_setEx
                   (w\<lparr>trace := trace w @ [RedisGet (cacheKey mid),
                                            RedisSetEx (cacheKey mid) 300 v]\<rparr>)
                   (cacheKey mid) 300 v"
  assumes "truthy amount" "truthy currency" "truthy merchantId"
    and "logLine rt amount currency merchantId = Some line"
    and "ToString rt merchantId = Some mid"
    and "redisOpen w" "\<not> redisGetFails w" "\<not> redisSetFails w"
    and "redis_get w (cacheKey mid) = None"
    and "v \<noteq> []" "JSON_parse rt v = Some (merchantRecord rt (now w))"
  shows "checkMerchant rt w merchantId = (JBool True, w1) \<and>
         processPayment rt w amount currency merchantId =
           (case insertPayment rt w1 amount currency merchantId of
              (None, w2) \<Rightarrow> (PersistenceError SqlError, w2)
            | (Some paymentId, w2) \<Rightarrow>
                (PaymentResult paymentId ''COMPLETED'' amount currency merchantId, w2)) \<and>
         cache (snd (processPayment rt w amount currency merchantId)) (cacheKey mid)
           = Some (v, now w + 300000) \<and>
         (\<forall>w'. cache w' (cacheKey mid) = Some (v, now w + 300000) \<and>
               now w' < now w + 300000 \<and> redisOpen w' \<and> \<not> redisGetFails w' \<longrightarrow>
               checkMerchant rt w' merchantId
                 = (JBool True, w'\<lparr>trace := trace w' @ [RedisGet (cacheKey mid)]\<rparr>)) \<and>
         (\<forall>w'. cache w' (cacheKey mid) = Some (v, now w + 300000) \<and>
               now w + 300000 \<le> now w' \<longrightarrow> redis_get w' (cacheKey mid) = None) \<and>
         (\<forall>w' cached merchantData stored.
               redisOpen w' \<and> \<not> redisGetFails w' \<and>
               redis_get w' (cacheKey mid) = Some cached \<and> cached \<noteq> [] \<and>
               JSON_parse rt cached = Some merchantData \<and>
               valid_of merchantData = Some stored \<longrightarrow>
               checkMerchant rt w' merchantId
                 = (stored, w'\<lparr>trace := trace w' @ [RedisGet (cacheKey mid)]\<rparr>)) \<and>
         (\<forall>w' cached kvs.
               redisOpen w' \<and> \<not> redisGetFails w' \<and>
               redis_get w' (cacheKey mid) = Some cached \<and> cached \<noteq> [] \<and>
               JSON_parse rt cached = Some (JObj kvs) \<longrightarrow>
               checkMerchant rt w' merchantId
                 = (case map_of (rev kvs) ''valid'' of None \<Rightarrow> JUndefined | Some s \<Rightarrow> s,
                    w'\<lparr>trace := trace w' @ [RedisGet (cacheKey mid)]\<rparr>) \<and>
               processPayment rt w' amount currency merchantId
                 = (if truthy (case map_of (rev kvs) ''valid'' of
                                 None \<Rightarrow> JUndefined | Some s \<Rightarrow> s)
                    then
                      (case insertPayment rt
                              (w'\<lparr>trace := trace w' @ [RedisGet (cacheKey mid)]\<rparr>)
                              amount currency merchantId of
                         (None, w2) \<Rightarrow> (PersistenceError SqlError, w2)
                       | (Some paymentId, w2) \<Rightarrow>
                           (PaymentResult paymentId ''COMPLETED'' amount currency merchantId,
                            w2))
                    else
                      (MerchantRejectedError merchantId,
                       w'\<lparr>trace := trace w' @ [RedisGet (cacheKey mid)]\<rparr>)))"
proof -
  have a: "checkMerchant rt w merchantId = (JBool True, w1)"
    using assms by (simp add: checkMerchant_def writeValidation_def Let_def redis_setEx_def)
  have b: "processPayment rt w amount currency merchantId =
           (case insertPayment rt w1 amount currency merchantId of
              (None, w2) \<Rightarrow> (PersistenceError SqlError, w2)
            | (Some paymentId, w2) \<Rightarrow>
                (PaymentResult paymentId ''COMPLETED'' amount currency merchantId, w2))"
    using processPayment_ledger_step [OF assms(3-6) a] by simp
  have c: "cache (snd (processPayment rt w amount currency merchantId)) (cacheKey mid)
             = Some (v, now w + 300000)"
    unfolding b
    by (simp add: insertPayment_def Let_def w1_def redis_setEx_def split: option.splits)
  have e: "checkMerchant rt w' merchantId
             = (stored, w'\<lparr>trace := trace w' @ [RedisGet (cacheKey mid)]\<rparr>)"
    if "redisOpen w'" "\<not> redisGetFails w'" "redis_get w' (cacheKey mid) = Some cached"
       "cached \<noteq> []" "JSON_parse rt cached = Some merchantData"
       "valid_of merchantData = Some stored"
    for w' cached merchantData stored
    using checkMerchant_hit [OF that(1,2) assms(7) that(3-6)] .
  have d: "checkMerchant rt w' merchantId
             = (JBool True, w'\<lparr>trace := trace w' @ [RedisGet (cacheKey mid)]\<rparr>)"
    if "cache w' (cacheKey mid) = Some (v, now w + 300000)" "now w' < now w + 300000"
       "redisOpen w'" "\<not> redisGetFails w'"
    for w'
  proof -
    have "redis_get w' (cacheKey mid) = Some v"
      using that by (simp add: redis_get_def)
    moreover have "valid_of (merchantRecord rt (now w)) = Some (JBool True)"
      by (simp add: merchantRecord_def)
    ultimately show ?thesis
      using e that assms(12,13) by blast
  qed
  have f: "redis_get w' (cacheKey mid) = None"
    if "cache w' (cacheKey mid) = Some (v, now w + 300000)" "now w + 300000 \<le> now w'"
    for w'
    using that by (simp add: redis_get_def)
  have g: "checkMerchant rt w' merchantId
             = (case map_of (rev kvs) ''valid'' of None \<Rightarrow> JUndefined | Some s \<Rightarrow> s,
                w'\<lparr>trace := trace w' @ [RedisGet (cacheKey mid)]\<rparr>) \<and>
           processPayment rt w' amount currency merchantId
             = (if truthy (case map_of (rev kvs) ''valid'' of
                             None \<Rightarrow> JUndefined | Some s \<Rightarrow> s)
                then
                  (case insertPayment rt
                          (w'\<lparr>trace := trace w' @ [RedisGet (cacheKey mid)]\<rparr>)
                          amount currency merchantId of
                     (None, w2) \<Rightarrow> (PersistenceError SqlError, w2)
                   | (Some paymentId, w2) \<Rightarrow>
                       (PaymentResult paymentId ''COMPLETED'' amount currency merchantId,
                        w2))
                else
                  (MerchantRejectedError merchantId,
                   w'\<lparr>trace := trace w' @ [RedisGet (cacheKey mid)]\<rparr>))"
    if "redisOpen w'" "\<not> redisGetFails w'" "redis_get w' (cacheKey mid) = Some cached"
       "cached \<noteq> []" "JSON_parse rt cached = Some (JObj kvs)"
    for w' cached kvs
  proof -
    have cm: "checkMerchant rt w' merchantId
             = (case map_of (rev kvs) ''valid'' of None \<Rightarrow> JUndefined | Some s \<Rightarrow> s,
                w'\<lparr>trace := trace w' @ [RedisGet (cacheKey mid)]\<rparr>)"
      using that assms(7) by (simp add: checkMerchant_def Let_def)
    show ?thesis
      using cm assms(3-6) by (simp add: processPayment_def)
  qed
  from a b c d e f g show ?thesis by blast
qed

theorem cache_miss_trusts_and_stores_witness:
  "fst (processPayment exampleRuntime emptyWorld (JNum 10) (JStr ''USD'') (JStr ''M1''))
     = PaymentResult 1 ''COMPLETED'' (JNum 10) (JStr ''USD'') (JStr ''M1'') \<and>
   cache (snd (processPayment exampleRuntime emptyWorld
                 (JNum 10) (JStr ''USD'') (JStr ''M1''))) ''merchant:M1''
     = Some (validText, 300000) \<and>
   fst (checkMerchant exampleRuntime
          ((snd (processPayment exampleRuntime emptyWorld
                   (JNum 10) (JStr ''USD'') (JStr ''M1'')))\<lparr>now := 299999\<rparr>)
          (JStr ''M1'')) = JBool True \<and>
   checkMerchant exampleRuntime (emptyWorld\<lparr>cache := invalidCache\<rparr>) (JStr ''M1'')
     = (JBool False,
        emptyWorld\<lparr>cache := invalidCache, trace := [RedisGet ''merchant:M1'']\<rparr>) \<and>
   processPayment exampleRuntime (emptyWorld\<lparr>cache := invalidCache\<rparr>)
       (JNum 10) (JStr ''USD'') (JStr ''M1'')
     = (MerchantRejectedError (JStr ''M1''),
        emptyWorld\<lparr>cache := invalidCache, trace := [RedisGet ''merchant:M1'']\<rparr>) \<and>
   fst (processPayment exampleRuntime (emptyWorld\<lparr>cache := validCache\<rparr>)
          (JNum 10) (JStr ''USD'') (JStr ''M1''))
     = PaymentResult 1 ''COMPLETED'' (JNum 10) (JStr ''USD'') (JStr ''M1'')"
proof -
  let ?w' = "(snd (processPayment exampleRuntime emptyWorld
                     (JNum 10) (JStr ''USD'') (JStr ''M1'')))\<lparr>now := 299999\<rparr>"
  let ?v = "JSON_stringify exampleRuntime (merchantRecord exampleRuntime (now emptyWorld))"
  let ?bad = "emptyWorld\<lparr>cache := invalidCache\<rparr>"
  let ?good = "emptyWorld\<lparr>cache := validCache\<rparr>"
  have hyps: "truthy (JNum 10)" "truthy (JStr ''USD'')" "truthy (JStr ''M1'')"
    "logLine exampleRuntime (JNum 10) (JStr ''USD'') (JStr ''M1'')
       = Some [''10'', ''USD'', ''M1'']"
    "ToString exampleRuntime (JStr ''M1'') = Some ''M1''"
    "redisOpen emptyWorld" "\<not> redisGetFails emptyWorld" "\<not> redisSetFails emptyWorld"
    "redis_get emptyWorld (cacheKey ''M1'') = None"
    "?v \<noteq> []"
    "JSON_parse exampleRuntime ?v = Some (merchantRecord exampleRuntime (now emptyWorld))"
    by (simp_all add: model_defs example_defs)
  note r = cache_miss_trusts_and_stores [OF hyps]
  have v: "?v = validText" "now emptyWorld + 300000 = 300000" "cacheKey ''M1'' = ''merchant:M1''"
    by (simp_all add: exampleRuntime_def emptyWorld_def cacheKey_def)
  have stored: "cache (snd (processPayment exampleRuntime emptyWorld
                  (JNum 10) (JStr ''USD'') (JStr ''M1''))) ''merchant:M1''
                = Some (validText, 300000)"
    using r [THEN conjunct2, THEN conjunct2, THEN conjunct1] unfolding v .
  have later: "cache ?w' (cacheKey ''M1'') = Some (?v, now emptyWorld + 300000) \<and>
               now ?w' < now emptyWorld + 300000 \<and> redisOpen ?w' \<and> \<not> redisGetFails ?w'"
    by (simp add: model_defs example_defs)
  have "checkMerchant exampleRuntime ?w' (JStr ''M1'')
          = (JBool True, ?w'\<lparr>trace := trace ?w' @ [RedisGet (cacheKey ''M1'')]\<rparr>)"
    using r [THEN conjunct2, THEN conjunct2, THEN conjunct2, THEN conjunct1,
             rule_format, OF later] .
  then have again: "fst (checkMerchant exampleRuntime ?w' (JStr ''M1'')) = JBool True"
    by simp
  have first: "fst (processPayment exampleRuntime emptyWorld
                        (JNum 10) (JStr ''USD'') (JStr ''M1''))
     = PaymentResult 1 ''COMPLETED'' (JNum 10) (JStr ''USD'') (JStr ''M1'')"
    by (simp add: model_defs example_defs)
  note hit = r [THEN conjunct2, THEN conjunct2, THEN conjunct2, THEN conjunct2,
                THEN conjunct2, THEN conjunct2, rule_format]
  have bad: "redisOpen ?bad \<and> \<not> redisGetFails ?bad \<and>
             redis_get ?bad (cacheKey ''M1'') = Some invalidText \<and> invalidText \<noteq> [] \<and>
             JSON_parse exampleRuntime invalidText
               = Some (JObj [(''valid'', JBool False),
                             (''checkedAt'', JStr ''1970-01-01T00:00:00.000Z''),
                             (''checkCount'', JNum 1)])"
    by (simp add: model_defs example_defs invalidCache_def)
  have good: "redisOpen ?good \<and> \<not> redisGetFails ?good \<and>
             redis_get ?good (cacheKey ''M1'') = Some validText \<and> validText \<noteq> [] \<and>
             JSON_parse exampleRuntime validText
               = Some (JObj [(''valid'', JBool True),
                             (''checkedAt'', JStr ''1970-01-01T00:00:00.000Z''),
                             (''checkCount'', JNum 1)])"
    by (simp add: model_defs example_defs validCache_def)
  have rejected:
    "checkMerchant exampleRuntime ?bad (JStr ''M1'')
       = (JBool False, emptyWorld\<lparr>cache := invalidCache, trace := [RedisGet ''merchant:M1'']\<rparr>)"
    "processPayment exampleRuntime ?bad (JNum 10) (JStr ''USD'') (JStr ''M1'')
       = (MerchantRejectedError (JStr ''M1''),
          emptyWorld\<lparr>cache := invalidCache, trace := [RedisGet ''merchant:M1'']\<rparr>)"
    using hit [OF bad] by (simp_all add: emptyWorld_def cacheKey_def)
  have accepted:
    "fst (processPayment exampleRuntime ?good (JNum 10) (JStr ''USD'') (JStr ''M1''))
       = PaymentResult 1 ''COMPLETED'' (JNum 10) (JStr ''USD'') (JStr ''M1'')"
    using hit [OF good]
    by (simp add: insertPayment_def exampleRuntime_def emptyWorld_def Let_def)
  from first stored again rejected accepted show ?thesis by simp
qed

text \<open>
  C5. A valid request whose log line renders, and a cache that fails it: the client is
  not open, or \<^verbatim>\<open>get\<close> rejects, or nothing is found and \<^verbatim>\<open>setEx\<close> rejects, or the
  entry found cannot be parsed or read. The cache step then leaves \<^verbatim>\<open>merchantValid\<close> at
  \<^verbatim>\<open>true\<close> and stores nothing, and the answer of the request is the outcome of the
  ledger write alone: the payment result when the insert succeeds, and otherwise the
  failure of the ledger, never one of the cache.
\<close>

theorem cache_failure_is_absorbed:
  assumes "truthy amount" "truthy currency" "truthy merchantId"
    and "logLine rt amount currency merchantId = Some line"
    and "ToString rt merchantId = Some mid"
    and "\<not> redisOpen w \<or> redisGetFails w \<or>
         (redis_get w (cacheKey mid) \<in> {None, Some []} \<and> redisSetFails w) \<or>
         (redis_get w (cacheKey mid) = Some cached \<and> cached \<noteq> [] \<and>
            Option.bind (JSON_parse rt cached) valid_of = None)"
    and "checkMerchant rt w merchantId = (merchantValid, w1)"
  shows "merchantValid = JBool True \<and> cache w1 = cache w \<and> Payments w1 = Payments w \<and>
         processPayment rt w amount currency merchantId =
           (case insertPayment rt w1 amount currency merchantId of
              (None, w2) \<Rightarrow> (PersistenceError SqlError, w2)
            | (Some paymentId, w2) \<Rightarrow>
                (PaymentResult paymentId ''COMPLETED'' amount currency merchantId, w2))"
proof -
  have mv: "merchantValid = JBool True \<and> cache w1 = cache w"
    using assms(5-7)
    by (auto simp: checkMerchant_def writeValidation_def Let_def bind_eq_None_conv
        split: if_splits option.splits)
  have "Payments w1 = Payments w"
    using checkMerchant_frame(1) [of rt w merchantId] assms(7) by simp
  moreover have "truthy merchantValid"
    using mv by simp
  ultimately show ?thesis
    using mv processPayment_ledger_step [OF assms(1-4) assms(7)] by simp
qed

theorem cache_failure_is_absorbed_witness:
  "processPayment exampleRuntime (emptyWorld\<lparr>redisOpen := False\<rparr>)
       (JNum 10) (JStr ''USD'') (JStr ''M1'')
     = (PaymentResult 1 ''COMPLETED'' (JNum 10) (JStr ''USD'') (JStr ''M1''),
        emptyWorld\<lparr>redisOpen := False,
          Payments := [\<lparr>PaymentId = 1, Amount = 10, Currency = ''USD'', MerchantId = ''M1'',
                        Status = ''COMPLETED'', CreatedAt = 0\<rparr>],
          identity := 1,
          trace := [SqlInsert (JNum 10) (JStr ''USD'') (JStr ''M1'')]\<rparr>)"
proof -
  let ?w = "emptyWorld\<lparr>redisOpen := False\<rparr>"
  have cm: "checkMerchant exampleRuntime ?w (JStr ''M1'') = (JBool True, ?w)"
    by (simp add: model_defs example_defs)
  have "processPayment exampleRuntime ?w (JNum 10) (JStr ''USD'') (JStr ''M1'') =
          (case insertPayment exampleRuntime ?w (JNum 10) (JStr ''USD'') (JStr ''M1'') of
             (None, w2) \<Rightarrow> (PersistenceError SqlError, w2)
           | (Some paymentId, w2) \<Rightarrow>
               (PaymentResult paymentId ''COMPLETED'' (JNum 10) (JStr ''USD'') (JStr ''M1''),
                w2))"
    using cache_failure_is_absorbed
            [where line = "[''10'', ''USD'', ''M1'']" and mid = "''M1''" and cached = "[]",
             OF _ _ _ _ _ _ cm]
    by (simp add: model_defs example_defs)
  then show ?thesis
    by (simp add: insertPayment_def exampleRuntime_def emptyWorld_def Let_def)
qed

section \<open>Calls per request\<close>

text \<open>
  C9. The calls a request adds to the trace hold at most one cache write and at most one
  insert. The cache write is made exactly when the request reads the cache and finds
  nothing to parse (\<open>cacheMiss\<close>: \<^verbatim>\<open>get\<close> answered \<^verbatim>\<open>null\<close> or the empty string); so
  there is none on a hit, none when \<^verbatim>\<open>get\<close> rejects or the client is closed, and none
  for a request that is refused before the cache step. The one write of a miss is the
  \<^verbatim>\<open>setEx\<close> of the serialised record with \<^verbatim>\<open>valid\<close> true under the key of the merchant
  of the request, for 300 seconds, and when it succeeds the cache after the request is
  the cache of before with that one key set to that record, expiring 300 seconds later.
  In every other case (no miss, or the write rejects) the cache after the request is the
  cache of before. So whatever the request, every key under which \<^verbatim>\<open>get\<close> would have
  found a text that is not empty, the key of another merchant included, holds after the
  request what it held before: a stored validation record is never written again.
\<close>

theorem one_cache_write_one_ledger_write:
  "\<exists>evs. trace (snd (processPayment rt w amount currency merchantId)) = trace w @ evs \<and>
         length (filter isCacheWrite evs)
           = (if cacheMiss rt w amount currency merchantId then 1 else 0) \<and>
         length (filter isLedgerWrite evs) \<le> 1 \<and>
         (\<not> cacheMiss rt w amount currency merchantId \<or> redisSetFails w \<longrightarrow>
            cache (snd (processPayment rt w amount currency merchantId)) = cache w) \<and>
         (cacheMiss rt w amount currency merchantId \<longrightarrow>
            (\<exists>mid. ToString rt merchantId = Some mid \<and>
               filter isCacheWrite evs
                 = [RedisSetEx (cacheKey mid) 300
                      (JSON_stringify rt (merchantRecord rt (now w)))] \<and>
               (\<not> redisSetFails w \<longrightarrow>
                  cache (snd (processPayment rt w amount currency merchantId))
                    = (cache w)(cacheKey mid \<mapsto>
                        (JSON_stringify rt (merchantRecord rt (now w)),
                         now w + 300000))))) \<and>
         (\<forall>k cached. redis_get w k = Some cached \<and> cached \<noteq> [] \<longrightarrow>
            cache (snd (processPayment rt w amount currency merchantId)) k = cache w k)"
  by (auto simp: processPayment_def checkMerchant_def writeValidation_def insertPayment_def
        redis_setEx_def cacheMiss_def Let_def
      split: option.splits prod.splits)

theorem one_cache_write_one_ledger_write_witness:
  "\<not> cacheMiss exampleRuntime (emptyWorld\<lparr>cache := validCache\<rparr>)
       (JNum 10) (JStr ''USD'') (JStr ''M1'') \<and>
   trace (snd (processPayment exampleRuntime (emptyWorld\<lparr>cache := validCache\<rparr>)
                 (JNum 10) (JStr ''USD'') (JStr ''M1'')))
     = [RedisGet ''merchant:M1'', SqlInsert (JNum 10) (JStr ''USD'') (JStr ''M1'')] \<and>
   cache (snd (processPayment exampleRuntime (emptyWorld\<lparr>cache := validCache\<rparr>)
                 (JNum 10) (JStr ''USD'') (JStr ''M1''))) = validCache \<and>
   cacheMiss exampleRuntime (emptyWorld\<lparr>cache := invalidCache\<rparr>)
       (JNum 10) (JStr ''USD'') (JStr ''M2'') \<and>
   trace (snd (processPayment exampleRuntime (emptyWorld\<lparr>cache := invalidCache\<rparr>)
                 (JNum 10) (JStr ''USD'') (JStr ''M2'')))
     = [RedisGet ''merchant:M2'', RedisSetEx ''merchant:M2'' 300 validText,
        SqlInsert (JNum 10) (JStr ''USD'') (JStr ''M2'')] \<and>
   cache (snd (processPayment exampleRuntime (emptyWorld\<lparr>cache := invalidCache\<rparr>)
                 (JNum 10) (JStr ''USD'') (JStr ''M2'')))
     = invalidCache(''merchant:M2'' \<mapsto> (validText, 300000)) \<and>
   cache (snd (processPayment exampleRuntime (emptyWorld\<lparr>cache := invalidCache\<rparr>)
                 (JNum 10) (JStr ''USD'') (JStr ''M2''))) ''merchant:M1''
     = Some (invalidText, 300000)"
proof -
  let ?w = "emptyWorld\<lparr>cache := validCache\<rparr>"
  let ?u = "emptyWorld\<lparr>cache := invalidCache\<rparr>"
  have hit: "\<not> cacheMiss exampleRuntime ?w (JNum 10) (JStr ''USD'') (JStr ''M1'')"
    by (simp add: cacheMiss_def model_defs example_defs validCache_def)
  have same: "cache (snd (processPayment exampleRuntime ?w
                            (JNum 10) (JStr ''USD'') (JStr ''M1''))) = validCache"
    using one_cache_write_one_ledger_write
            [of exampleRuntime ?w "JNum 10" "JStr ''USD''" "JStr ''M1''"] hit
    by auto
  have calls: "trace (snd (processPayment exampleRuntime ?w
                               (JNum 10) (JStr ''USD'') (JStr ''M1'')))
     = [RedisGet ''merchant:M1'', SqlInsert (JNum 10) (JStr ''USD'') (JStr ''M1'')]"
    by (simp add: model_defs example_defs validCache_def)
  have miss: "cacheMiss exampleRuntime ?u (JNum 10) (JStr ''USD'') (JStr ''M2'')"
    by (simp add: cacheMiss_def model_defs example_defs invalidCache_def)
  have facts: "ToString exampleRuntime (JStr ''M2'') = Some ''M2''"
    "\<not> redisSetFails ?u" "cache ?u = invalidCache" "now ?u + 300000 = 300000"
    "cacheKey ''M2'' = ''merchant:M2''"
    "JSON_stringify exampleRuntime (merchantRecord exampleRuntime (now ?u)) = validText"
    "redis_get ?u ''merchant:M1'' = Some invalidText \<and> invalidText \<noteq> []"
    by (simp_all add: model_defs example_defs invalidCache_def)
  from one_cache_write_one_ledger_write
         [of exampleRuntime ?u "JNum 10" "JStr ''USD''" "JStr ''M2''"]
  obtain evs where evs:
      "cacheMiss exampleRuntime ?u (JNum 10) (JStr ''USD'') (JStr ''M2'') \<longrightarrow>
         (\<exists>mid. ToString exampleRuntime (JStr ''M2'') = Some mid \<and>
            filter isCacheWrite evs
              = [RedisSetEx (cacheKey mid) 300
                   (JSON_stringify exampleRuntime (merchantRecord exampleRuntime (now ?u)))] \<and>
            (\<not> redisSetFails ?u \<longrightarrow>
               cache (snd (processPayment exampleRuntime ?u
                             (JNum 10) (JStr ''USD'') (JStr ''M2'')))
                 = (cache ?u)(cacheKey mid \<mapsto>
                     (JSON_stringify exampleRuntime (merchantRecord exampleRuntime (now ?u)),
                      now ?u + 300000))))"
      "\<forall>k cached. redis_get ?u k = Some cached \<and> cached \<noteq> [] \<longrightarrow>
         cache (snd (processPayment exampleRuntime ?u
                       (JNum 10) (JStr ''USD'') (JStr ''M2''))) k = cache ?u k"
    by blast
  have written: "cache (snd (processPayment exampleRuntime ?u
                      (JNum 10) (JStr ''USD'') (JStr ''M2'')))
     = invalidCache(''merchant:M2'' \<mapsto> (validText, 300000))"
    using evs(1) miss facts(1-6) by auto
  have kept: "cache (snd (processPayment exampleRuntime ?u
                      (JNum 10) (JStr ''USD'') (JStr ''M2''))) ''merchant:M1''
     = Some (invalidText, 300000)"
    using evs(2) [rule_format, OF facts(7)] facts(3) by (simp add: invalidCache_def)
  have calls': "trace (snd (processPayment exampleRuntime ?u
                               (JNum 10) (JStr ''USD'') (JStr ''M2'')))
     = [RedisGet ''merchant:M2'', RedisSetEx ''merchant:M2'' 300 validText,
        SqlInsert (JNum 10) (JStr ''USD'') (JStr ''M2'')]"
    by (simp add: model_defs exampleRuntime_def emptyWorld_def invalidCache_def
          invalidText_def)
  from hit same calls miss written kept calls' show ?thesis by blast
qed

section \<open>Statistics of the last day\<close>

lemma processPayment_ledger:
  assumes "processPayment rt w amount currency merchantId = (r, w1)"
  shows "now w1 = now w \<and> sqlDown w1 = sqlDown w \<and>
         (if isPaymentResult r
          then \<exists>row. Payments w1 = Payments w @ [row] \<and>
                 sqlDecimal rt amount = Some (Amount row) \<and> CreatedAt row = now w
          else Payments w1 = Payments w)"
proof -
  obtain mv w0 where cm: "checkMerchant rt w merchantId = (mv, w0)"
    by (cases "checkMerchant rt w merchantId")
  have fr: "Payments w0 = Payments w" "now w0 = now w" "sqlDown w0 = sqlDown w"
    using checkMerchant_frame [of rt w merchantId] cm by simp_all
  from assms cm fr show ?thesis
    by (auto simp: processPayment_def insertPayment_def Let_def
        split: if_splits option.splits prod.splits)
qed

lemma intake_ledger:
  assumes "intake rt w reqs = (rs, w')" "list_all isPaymentResult rs"
  shows "\<exists>rows. Payments w' = Payments w @ rows \<and>
           map (\<lambda>row. Some (Amount row)) rows
             = map (\<lambda>(delay, amount, currency, merchantId). sqlDecimal rt amount) reqs \<and>
           ((\<forall>q\<in>set reqs. 0 \<le> fst q) \<longrightarrow> (\<forall>row\<in>set rows. now w \<le> CreatedAt row)) \<and>
           now w' = now w + sum_list (map fst reqs) \<and> sqlDown w' = sqlDown w"
  using assms
proof (induction reqs arbitrary: w rs)
  case Nil
  then show ?case by simp
next
  case (Cons q reqs)
  obtain delay amount currency merchantId where q: "q = (delay, amount, currency, merchantId)"
    by (cases q)
  let ?w = "w\<lparr>now := now w + delay\<rparr>"
  obtain r w1 where pp: "processPayment rt ?w amount currency merchantId = (r, w1)"
    by (cases "processPayment rt ?w amount currency merchantId")
  obtain rs' w2 where run: "intake rt w1 reqs = (rs', w2)"
    by (cases "intake rt w1 reqs")
  from Cons.prems q pp run have eqs: "rs = r # rs'" "w' = w2"
    by simp_all
  with Cons.prems have ok: "isPaymentResult r" "list_all isPaymentResult rs'"
    by simp_all
  from processPayment_ledger [OF pp] ok(1)
  obtain row where row: "now w1 = now w + delay" "sqlDown w1 = sqlDown w"
      "Payments w1 = Payments w @ [row]" "sqlDecimal rt amount = Some (Amount row)"
      "CreatedAt row = now w + delay"
    by auto
  from Cons.IH [OF run [unfolded eqs(2) [symmetric]] ok(2)] eqs(2)
  obtain rows where rows: "Payments w2 = Payments w1 @ rows"
      "map (\<lambda>row. Some (Amount row)) rows
         = map (\<lambda>(delay, amount, currency, merchantId). sqlDecimal rt amount) reqs"
      "(\<forall>q\<in>set reqs. 0 \<le> fst q) \<longrightarrow> (\<forall>row\<in>set rows. now w1 \<le> CreatedAt row)"
      "now w2 = now w1 + sum_list (map fst reqs)" "sqlDown w2 = sqlDown w1"
    by blast
  have "Payments w' = Payments w @ (row # rows)"
    using eqs rows(1) row(3) by simp
  moreover have "map (\<lambda>row. Some (Amount row)) (row # rows)
      = map (\<lambda>(delay, amount, currency, merchantId). sqlDecimal rt amount) (q # reqs)"
    using rows(2) row(4) q by simp
  moreover have "(\<forall>q\<in>set (q # reqs). 0 \<le> fst q) \<longrightarrow>
                   (\<forall>row\<in>set (row # rows). now w \<le> CreatedAt row)"
    using rows(3) row(1,5) q by fastforce
  moreover have "now w' = now w + sum_list (map fst (q # reqs))"
    using eqs rows(4) row(1) q by simp
  moreover have "sqlDown w' = sqlDown w"
    using eqs rows(5) row(2) by simp
  ultimately show ?case by blast
qed

lemma aggregate_amounts:
  assumes "map (\<lambda>row. Some (Amount row)) rows = map Some amounts"
  shows "aggregate rows =
           \<lparr>totalPayments = length amounts,
            totalAmount = (if amounts = [] then None else Some (sum_list amounts)),
            averageAmount =
              (if amounts = [] then None
               else Some (sum_list amounts / of_nat (length amounts))),
            uniqueMerchants = length (remdups (map MerchantId rows))\<rparr>"
proof -
  have "map Amount rows = amounts"
    using assms by (induction rows arbitrary: amounts) auto
  then show ?thesis
    by (auto simp: aggregate_def)
qed

text \<open>
  C7, as the code has it. Take a ledger whose rows are all older than a day at the
  moment of the statistics call, an empty ledger among them, and a run of N requests that
  all end in a payment result, made at or after the start and at most a day before the
  call. The statistics then count exactly the N new rows and none of the old ones:
  \<^verbatim>\<open>totalPayments\<close> is N; for N at least 1, \<^verbatim>\<open>totalAmount\<close> is the exact sum of the
  decimal amounts; for N = 0, \<^verbatim>\<open>uniqueMerchants\<close> is 0 and \<^verbatim>\<open>totalAmount\<close> and
  \<^verbatim>\<open>averageAmount\<close> are \<^verbatim>\<open>NULL\<close>, not 0, and the answer is still not an error.
\<close>

theorem daily_stats_of_recent_inserts:
  assumes "intake rt w reqs = (rs, w')" and "list_all isPaymentResult rs"
    and "map (\<lambda>(delay, amount, currency, merchantId). sqlDecimal rt amount) reqs
           = map Some amounts"
    and "\<forall>q\<in>set reqs. 0 \<le> fst q"
    and "sum_list (map fst reqs) + wait \<le> 86400000"
    and "\<forall>row\<in>set (Payments w). CreatedAt row < now w' + wait - 86400000"
    and "\<not> sqlDown w"
  shows "\<exists>s. computeDailyStats (w'\<lparr>now := now w' + wait\<rparr>) = Stats s \<and>
             totalPayments s = length reqs \<and>
             totalAmount s = (if reqs = [] then None else Some (sum_list amounts)) \<and>
             (reqs = [] \<longrightarrow> averageAmount s = None \<and> uniqueMerchants s = 0)"
proof -
  from intake_ledger [OF assms(1,2)] assms(4)
  obtain rows where rows: "Payments w' = Payments w @ rows"
      "map (\<lambda>row. Some (Amount row)) rows
         = map (\<lambda>(delay, amount, currency, merchantId). sqlDecimal rt amount) reqs"
      "\<forall>row\<in>set rows. now w \<le> CreatedAt row"
      "now w' = now w + sum_list (map fst reqs)" "sqlDown w' = sqlDown w"
    by blast
  let ?t = "now w' + wait"
  have old: "lastDay ?t (Payments w) = []"
    using assms(6) by (auto simp: lastDay_def filter_empty_conv)
  have new: "lastDay ?t rows = rows"
    using rows(3,4) assms(5) by (auto simp: lastDay_def filter_id_conv)
  have window: "lastDay ?t (Payments w') = rows"
    using old new rows(1) by (simp add: lastDay_def)
  have len: "length amounts = length reqs"
    using assms(3) by (metis length_map)
  have "computeDailyStats (w'\<lparr>now := ?t\<rparr>) = Stats (aggregate rows)"
    using window rows(5) assms(7) by (simp add: computeDailyStats_def)
  moreover have "map (\<lambda>row. Some (Amount row)) rows = map Some amounts"
    using rows(2) assms(3) by simp
  ultimately show ?thesis
    using aggregate_amounts [of rows amounts] len by auto
qed

theorem daily_stats_of_recent_inserts_witness:
  "(\<exists>s. computeDailyStats
          ((snd (intake exampleRuntime emptyWorld
                   [(0, JNum 10, JStr ''USD'', JStr ''M1''),
                    (1000, JNum 25.5, JStr ''USD'', JStr ''M1'')]))
             \<lparr>now := now (snd (intake exampleRuntime emptyWorld
                   [(0, JNum 10, JStr ''USD'', JStr ''M1''),
                    (1000, JNum 25.5, JStr ''USD'', JStr ''M1'')])) + 1000\<rparr>) = Stats s \<and>
        totalPayments s = 2 \<and> totalAmount s = Some 35.5) \<and>
   computeDailyStats
     ((snd (intake exampleRuntime emptyWorld
              [(0, JNum 10, JStr ''USD'', JStr ''M1''),
               (1000, JNum 25.5, JStr ''USD'', JStr ''M1'')]))\<lparr>now := 2000\<rparr>)
   = Stats \<lparr>totalPayments = 2, totalAmount = Some 35.5, averageAmount = Some 17.75,
            uniqueMerchants = 1\<rparr>"
proof -
  let ?reqs = "[(0, JNum 10, JStr ''USD'', JStr ''M1''),
                (1000, JNum 25.5, JStr ''USD'', JStr ''M1'')] :: (int \<times> js \<times> js \<times> js) list"
  let ?rs = "[PaymentResult 1 ''COMPLETED'' (JNum 10) (JStr ''USD'') (JStr ''M1''),
              PaymentResult 2 ''COMPLETED'' (JNum 25.5) (JStr ''USD'') (JStr ''M1'')]"
  have run: "intake exampleRuntime emptyWorld ?reqs
               = (?rs, snd (intake exampleRuntime emptyWorld ?reqs))"
    by (simp add: model_defs example_defs)
  have "\<exists>s. computeDailyStats
          ((snd (intake exampleRuntime emptyWorld ?reqs))
             \<lparr>now := now (snd (intake exampleRuntime emptyWorld ?reqs)) + 1000\<rparr>) = Stats s \<and>
       totalPayments s = length ?reqs \<and>
       totalAmount s = (if ?reqs = [] then None else Some (sum_list [10, 25.5])) \<and>
       (?reqs = [] \<longrightarrow> averageAmount s = None \<and> uniqueMerchants s = 0)"
    by (rule daily_stats_of_recent_inserts [OF run])
       (simp_all add: exampleRuntime_def emptyWorld_def)
  then have counted: "\<exists>s. computeDailyStats
          ((snd (intake exampleRuntime emptyWorld ?reqs))
             \<lparr>now := now (snd (intake exampleRuntime emptyWorld ?reqs)) + 1000\<rparr>) = Stats s \<and>
        totalPayments s = 2 \<and> totalAmount s = Some 35.5"
    by (simp add: numeral_2_eq_2 del: intake.simps)
  have "computeDailyStats ((snd (intake exampleRuntime emptyWorld ?reqs))\<lparr>now := 2000\<rparr>)
          = Stats \<lparr>totalPayments = 2, totalAmount = Some 35.5, averageAmount = Some 17.75,
                   uniqueMerchants = 1\<rparr>"
    by (simp add: model_defs example_defs computeDailyStats_def lastDay_def aggregate_def)
  with counted show ?thesis by blast
qed

text \<open>
  C7 as stated fails on the empty ledger: the statistics are not the four zeros, since
  \<^verbatim>\<open>SUM\<close> and \<^verbatim>\<open>AVG\<close> of no rows are \<^verbatim>\<open>NULL\<close>.
\<close>

theorem empty_ledger_stats_not_all_zero:
  "computeDailyStats emptyWorld
     = Stats \<lparr>totalPayments = 0, totalAmount = None, averageAmount = None,
              uniqueMerchants = 0\<rparr> \<and>
   computeDailyStats emptyWorld
     \<noteq> Stats \<lparr>totalPayments = 0, totalAmount = Some 0, averageAmount = Some 0,
              uniqueMerchants = 0\<rparr>"
  by (simp add: computeDailyStats_def lastDay_def aggregate_def emptyWorld_def)

section \<open>The list of recent payments\<close>

lemma sort_by_CreatedAt_descending:
  "sorted_wrt (\<lambda>r s. CreatedAt s \<le> CreatedAt r) (sort_key (\<lambda>r. - CreatedAt r) rows)"
proof -
  have "sorted (map (\<lambda>r. - CreatedAt r) (sort_key (\<lambda>r. - CreatedAt r) rows))"
    by (rule sorted_sort_key)
  then show ?thesis
    by (simp add: sorted_wrt_map)
qed

text \<open>
  C8. Whatever rows the ledger holds, when the store answers the handler returns the
  first 20 rows of the ledger sorted by \<^verbatim>\<open>CreatedAt\<close> descending: at most 20 rows (all
  of them when the ledger has fewer), each at least as recent as the next, and every
  row left out is no more recent than any row returned. The count of the answer is the
  number of rows returned.
\<close>

theorem recent_payments_at_most_20_descending:
  assumes "\<not> sqlDown w"
  shows "\<exists>rows rest. listRecentPayments w = PaymentList rows (length rows) \<and>
           length rows \<le> 20 \<and> length rows = min 20 (length (Payments w)) \<and>
           sorted_wrt (\<lambda>r s. CreatedAt s \<le> CreatedAt r) rows \<and>
           mset (rows @ rest) = mset (Payments w) \<and>
           (\<forall>r\<in>set rows. \<forall>s\<in>set rest. CreatedAt s \<le> CreatedAt r)"
proof -
  let ?ys = "sort_key (\<lambda>r. - CreatedAt r) (Payments w)"
  let ?rows = "take 20 ?ys" and ?rest = "drop 20 ?ys"
  have sorted: "sorted_wrt (\<lambda>r s. CreatedAt s \<le> CreatedAt r) (?rows @ ?rest)"
    using sort_by_CreatedAt_descending [of "Payments w"] by simp
  have "listRecentPayments w = PaymentList ?rows (length ?rows)"
    using assms by (simp add: listRecentPayments_def Let_def)
  moreover have "length ?rows \<le> 20" "length ?rows = min 20 (length (Payments w))"
    by simp_all
  moreover have "sorted_wrt (\<lambda>r s. CreatedAt s \<le> CreatedAt r) ?rows"
    using sorted unfolding sorted_wrt_append by blast
  moreover have "mset (?rows @ ?rest) = mset (Payments w)"
    by simp
  moreover have "\<forall>r\<in>set ?rows. \<forall>s\<in>set ?rest. CreatedAt s \<le> CreatedAt r"
    using sorted unfolding sorted_wrt_append by blast
  ultimately show ?thesis by blast
qed

theorem recent_payments_at_most_20_descending_witness:
  "\<not> sqlDown threePayments \<and>
   (\<exists>rows rest. listRecentPayments threePayments = PaymentList rows (length rows) \<and>
      length rows \<le> 20 \<and> length rows = min 20 (length (Payments threePayments)) \<and>
      sorted_wrt (\<lambda>r s. CreatedAt s \<le> CreatedAt r) rows \<and>
      mset (rows @ rest) = mset (Payments threePayments) \<and>
      (\<forall>r\<in>set rows. \<forall>s\<in>set rest. CreatedAt s \<le> CreatedAt r)) \<and>
   listRecentPayments threePayments =
     PaymentList
       [\<lparr>PaymentId = 2, Amount = 25.5, Currency = ''USD'', MerchantId = ''M1'',
          Status = ''COMPLETED'', CreatedAt = 3000\<rparr>,
        \<lparr>PaymentId = 3, Amount = 7, Currency = ''EUR'', MerchantId = ''M2'',
          Status = ''COMPLETED'', CreatedAt = 2000\<rparr>,
        \<lparr>PaymentId = 1, Amount = 10, Currency = ''USD'', MerchantId = ''M1'',
          Status = ''COMPLETED'', CreatedAt = 1000\<rparr>] 3"
proof -
  have up: "\<not> sqlDown threePayments"
    by (simp add: threePayments_def emptyWorld_def)
  have "listRecentPayments threePayments =
     PaymentList
       [\<lparr>PaymentId = 2, Amount = 25.5, Currency = ''USD'', MerchantId = ''M1'',
          Status = ''COMPLETED'', CreatedAt = 3000\<rparr>,
        \<lparr>PaymentId = 3, Amount = 7, Currency = ''EUR'', MerchantId = ''M2'',
          Status = ''COMPLETED'', CreatedAt = 2000\<rparr>,
        \<lparr>PaymentId = 1, Amount = 10, Currency = ''USD'', MerchantId = ''M1'',
          Status = ''COMPLETED'', CreatedAt = 1000\<rparr>] 3"
    by (simp add: listRecentPayments_def threePayments_def emptyWorld_def sort_key_def)
  with up recent_payments_at_most_20_descending [OF up] show ?thesis
    by blast
qed

end
